theory Spec2Isabelle
  imports Main
begin

section \<open>Tables of the shared database\<close>

text \<open>
  The rows carry the columns that the statements of \<^verbatim>\<open>worker/src/db.py\<close> and
  \<^verbatim>\<open>cleanup/cleanup.py\<close> read or write. A table is the list of its rows in the order in
  which a scan meets them; SQL fixes no such order, so every theorem below is stated for an
  arbitrary list. Timestamps are seconds, \<open>NULL\<close> is \<open>None\<close>.
\<close>

type_synonym timestamp = int

datatype task_status = Pending | Processing | Completed | Failed

datatype proxy_status = Available | Locked | Blocked

datatype worker_status = Active | Stopped

record task =
  t_id :: int
  t_item_id :: int
  t_status :: task_status
  t_attempts :: int
  t_max_attempts :: int
  t_worker_id :: "string option"
  t_created_at :: timestamp
  t_last_attempt_at :: "timestamp option"
  t_completed_at :: "timestamp option"

record proxy =
  p_id :: int
  p_proxy :: string
  p_status :: proxy_status
  p_locked_by :: "string option"
  p_locked_at :: "timestamp option"
  p_last_used_at :: "timestamp option"
  p_uses_count :: int
  p_blocks_count :: int

record worker =
  w_worker_id :: string
  w_status :: worker_status
  w_last_heartbeat :: timestamp
  w_tasks_processed :: int
  w_tasks_failed :: int

text \<open>The twelve content columns of a result row, as \<open>save_result_to_db\<close> passes them.\<close>

record card_columns =
  title :: "string option"
  description :: "string option"
  characteristics :: string
  price :: "string option"
  published_at :: "string option"
  seller_name :: "string option"
  seller_profile_url :: "string option"
  location_address :: "string option"
  location_metro :: "string option"
  location_region :: "string option"
  views_total :: "int option"
  failure_reason :: "string option"

record result_row =
  r_item_id :: int
  r_columns :: card_columns
  r_status :: string
  r_worker_id :: string
  r_attempts :: int
  r_updated_at :: "timestamp option"

record database =
  tasks :: "task list"
  proxies :: "proxy list"
  workers :: "worker list"
  results :: "result_row list"

section \<open>The statements of the worker's store\<close>

subsection \<open>\<open>acquire_task\<close>\<close>

text \<open>
  The inner \<open>SELECT id FROM tasks WHERE status='pending' ORDER BY created_at ASC LIMIT 1\<close>.
  The only sort key is \<open>created_at\<close>: among rows with the least \<open>created_at\<close> the row kept
  is the one the scan meets first.
\<close>

fun earliest_created :: "task \<Rightarrow> task list \<Rightarrow> task" where
  "earliest_created best [] = best"
| "earliest_created best (t # ts) =
     (if t_created_at t < t_created_at best then earliest_created t ts
      else earliest_created best ts)"

definition select_pending_task :: "task list \<Rightarrow> task option" where
  "select_pending_task ts =
     (case filter (\<lambda>t. t_status t = Pending) ts of
        [] \<Rightarrow> None
      | t # rest \<Rightarrow> Some (earliest_created t rest))"

definition lease_task :: "string \<Rightarrow> timestamp \<Rightarrow> task \<Rightarrow> task" where
  "lease_task worker_id now t =
     t\<lparr>t_status := Processing,
       t_worker_id := Some worker_id,
       t_last_attempt_at := Some now,
       t_attempts := t_attempts t + 1\<rparr>"

record task_lease =
  leased_task_id :: int
  leased_item_id :: int
  leased_attempts :: int

text \<open>
  The whole \<open>UPDATE ... WHERE id = (SELECT ...) RETURNING id, item_id, attempts\<close>, read with
  \<open>fetchrow\<close>: the first returned row, or \<open>None\<close> when the statement returns no row.
\<close>

definition acquire_task_sql ::
  "string \<Rightarrow> timestamp \<Rightarrow> task list \<Rightarrow> task_lease option \<times> task list" where
  "acquire_task_sql worker_id now ts =
     (case select_pending_task ts of
        None \<Rightarrow> (None, ts)
      | Some sel \<Rightarrow>
          (let ts' = map (\<lambda>t. if t_id t = t_id sel then lease_task worker_id now t else t) ts
           in (case find (\<lambda>t. t_id t = t_id sel) ts' of
                 None \<Rightarrow> None
               | Some row \<Rightarrow>
                   Some \<lparr>leased_task_id = t_id row, leased_item_id = t_item_id row,
                         leased_attempts = t_attempts row\<rparr>,
               ts')))"

subsection \<open>\<open>acquire_proxy\<close>\<close>

fun least_used :: "proxy \<Rightarrow> proxy list \<Rightarrow> proxy" where
  "least_used best [] = best"
| "least_used best (p # ps) =
     (if p_uses_count p < p_uses_count best then least_used p ps
      else least_used best ps)"

definition select_available_proxy :: "proxy list \<Rightarrow> proxy option" where
  "select_available_proxy ps =
     (case filter (\<lambda>p. p_status p = Available) ps of
        [] \<Rightarrow> None
      | p # rest \<Rightarrow> Some (least_used p rest))"

definition lease_proxy :: "string \<Rightarrow> timestamp \<Rightarrow> proxy \<Rightarrow> proxy" where
  "lease_proxy worker_id now p =
     p\<lparr>p_status := Locked,
       p_locked_by := Some worker_id,
       p_locked_at := Some now,
       p_uses_count := p_uses_count p + 1\<rparr>"

record proxy_lease =
  leased_proxy_id :: int
  leased_proxy :: string

definition acquire_proxy_sql ::
  "string \<Rightarrow> timestamp \<Rightarrow> proxy list \<Rightarrow> proxy_lease option \<times> proxy list" where
  "acquire_proxy_sql worker_id now ps =
     (case select_available_proxy ps of
        None \<Rightarrow> (None, ps)
      | Some sel \<Rightarrow>
          (let ps' = map (\<lambda>p. if p_proxy p = p_proxy sel then lease_proxy worker_id now p else p) ps
           in (case find (\<lambda>p. p_proxy p = p_proxy sel) ps' of
                 None \<Rightarrow> None
               | Some row \<Rightarrow> Some \<lparr>leased_proxy_id = p_id row, leased_proxy = p_proxy row\<rparr>,
               ps')))"

subsection \<open>The updates keyed by proxy string or task id\<close>

text \<open>\<open>UPDATE proxies SET status='available', locked_by=NULL, locked_at=NULL,
  last_used_at=NOW() WHERE proxy=$1\<close>\<close>

definition release_proxy_sql :: "timestamp \<Rightarrow> string \<Rightarrow> proxy list \<Rightarrow> proxy list" where
  "release_proxy_sql now proxy_string ps =
     map (\<lambda>p. if p_proxy p = proxy_string
               then p\<lparr>p_status := Available, p_locked_by := None, p_locked_at := None,
                      p_last_used_at := Some now\<rparr>
               else p) ps"

text \<open>\<open>UPDATE proxies SET status='blocked', blocks_count=blocks_count+1 WHERE proxy=$1\<close>\<close>

definition mark_proxy_blocked_sql :: "string \<Rightarrow> proxy list \<Rightarrow> proxy list" where
  "mark_proxy_blocked_sql proxy_string ps =
     map (\<lambda>p. if p_proxy p = proxy_string
               then p\<lparr>p_status := Blocked, p_blocks_count := p_blocks_count p + 1\<rparr>
               else p) ps"

text \<open>\<open>UPDATE tasks SET status='completed', completed_at=NOW() WHERE id=$1\<close>\<close>

definition mark_task_completed_sql :: "timestamp \<Rightarrow> int \<Rightarrow> task list \<Rightarrow> task list" where
  "mark_task_completed_sql now task_id ts =
     map (\<lambda>t. if t_id t = task_id
               then t\<lparr>t_status := Completed, t_completed_at := Some now\<rparr>
               else t) ts"

text \<open>\<open>UPDATE tasks SET status = CASE WHEN attempts >= max_attempts THEN 'failed'
  ELSE 'pending' END, worker_id = NULL, last_attempt_at = NULL WHERE id=$1\<close>\<close>

definition increment_task_attempts_sql :: "int \<Rightarrow> task list \<Rightarrow> task list" where
  "increment_task_attempts_sql task_id ts =
     map (\<lambda>t. if t_id t = task_id
               then t\<lparr>t_status := (if t_attempts t \<ge> t_max_attempts t then Failed else Pending),
                      t_worker_id := None,
                      t_last_attempt_at := None\<rparr>
               else t) ts"

text \<open>The two \<open>UPDATE workers\<close> statements of \<open>increment_worker_stats\<close>.\<close>

definition increment_worker_stats_sql :: "string \<Rightarrow> bool \<Rightarrow> worker list \<Rightarrow> worker list" where
  "increment_worker_stats_sql worker_id success ws =
     map (\<lambda>w. if w_worker_id w = worker_id
               then (if success then w\<lparr>w_tasks_processed := w_tasks_processed w + 1\<rparr>
                     else w\<lparr>w_tasks_failed := w_tasks_failed w + 1\<rparr>)
               else w) ws"

text \<open>
  \<open>INSERT INTO workers (worker_id) VALUES ($1) ON CONFLICT (worker_id) DO UPDATE SET
  last_heartbeat=NOW(), status='active'\<close>. The defaults of a fresh row are those of the
  schema, which is not part of the sources; they are taken as active, heartbeat now, counters 0.
\<close>

definition update_heartbeat_sql :: "timestamp \<Rightarrow> string \<Rightarrow> worker list \<Rightarrow> worker list" where
  "update_heartbeat_sql now worker_id ws =
     (if find (\<lambda>w. w_worker_id w = worker_id) ws \<noteq> None
      then map (\<lambda>w. if w_worker_id w = worker_id
                     then w\<lparr>w_last_heartbeat := now, w_status := Active\<rparr> else w) ws
      else ws @ [\<lparr>w_worker_id = worker_id, w_status = Active, w_last_heartbeat = now,
                   w_tasks_processed = 0, w_tasks_failed = 0\<rparr>])"

text \<open>
  \<open>INSERT INTO results (...) VALUES (...) ON CONFLICT (item_id) DO UPDATE SET ...,
  updated_at=NOW()\<close>: the row with this \<open>item_id\<close> is overwritten, or the row is added.
\<close>

definition save_result_sql :: "timestamp \<Rightarrow> result_row \<Rightarrow> result_row list \<Rightarrow> result_row list" where
  "save_result_sql now new rs =
     (if find (\<lambda>r. r_item_id r = r_item_id new) rs \<noteq> None
      then map (\<lambda>r. if r_item_id r = r_item_id new then new\<lparr>r_updated_at := Some now\<rparr> else r) rs
      else rs @ [new])"

section \<open>The retry loop of every store function\<close>

text \<open>
  \<^verbatim>\<open>
  for attempt in range(config.DB_RETRY_ATTEMPTS):
      try:
          conn = await get_connection()
          try:
              ...statement...; return <value>
          finally:
              await pool.release(conn)
      except Exception as e:
          if attempt < config.DB_RETRY_ATTEMPTS - 1: await asyncio.sleep(config.RETRY_DELAY)
          else: <raise e | return False>
  \<close>
  An attempt ends in one of three ways. It completes: the statement is applied and the
  value returned. It raises before the statement is applied: no connection, or the
  statement is refused. It raises after the statement was applied: the answer is lost, or
  \<open>pool.release\<close> raises in the \<open>finally\<close>, which replaces the \<open>return\<close>; the loop then
  goes on with the tables already changed. When the range is empty the loop is left without
  a \<open>return\<close>, and the Python function returns \<open>None\<close>.
\<close>

datatype attempt = Completes | RaisesBefore | RaisesAfter

datatype 'r loop_end = Succeeded 'r | Exhausted | FellThrough

text \<open>\<open>body attempt s\<close> is the statement of this attempt: its value and the tables after it.\<close>

fun attempts_loop ::
  "int \<Rightarrow> (nat \<Rightarrow> attempt) \<Rightarrow> (nat \<Rightarrow> 's \<Rightarrow> 'r \<times> 's) \<Rightarrow> nat list \<Rightarrow> 's \<Rightarrow> 'r loop_end \<times> 's" where
  "attempts_loop n fails body [] s = (FellThrough, s)"
| "attempts_loop n fails body (attempt # rest) s =
     (case fails attempt of
        Completes \<Rightarrow> (Succeeded (fst (body attempt s)), snd (body attempt s))
      | RaisesBefore \<Rightarrow>
          (if int attempt < n - 1 then attempts_loop n fails body rest s
           else (Exhausted, s))
      | RaisesAfter \<Rightarrow>
          (if int attempt < n - 1 then attempts_loop n fails body rest (snd (body attempt s))
           else (Exhausted, snd (body attempt s))))"

definition for_attempts ::
  "int \<Rightarrow> (nat \<Rightarrow> attempt) \<Rightarrow> (nat \<Rightarrow> 's \<Rightarrow> 'r \<times> 's) \<Rightarrow> 's \<Rightarrow> 'r loop_end \<times> 's" where
  "for_attempts n fails body s = attempts_loop n fails body [0..<nat n] s"

text \<open>What a call does: it returns a value or raises.\<close>

datatype 'a outcome = Returned 'a | Raised

text \<open>The end of a function declared \<open>-> bool\<close>: \<open>True\<close>, \<open>False\<close> or Python's \<open>None\<close>.\<close>

definition bool_result :: "unit loop_end \<times> database \<Rightarrow> bool option outcome \<times> database" where
  "bool_result e =
     (case fst e of
        Succeeded u \<Rightarrow> (Returned (Some True), snd e)
      | Exhausted \<Rightarrow> (Returned (Some False), snd e)
      | FellThrough \<Rightarrow> (Returned None, snd e))"

text \<open>The end of the two functions that \<open>raise e\<close> after the last attempt.\<close>

definition row_result :: "'r option loop_end \<times> database \<Rightarrow> 'r option outcome \<times> database" where
  "row_result e =
     (case fst e of
        Succeeded row \<Rightarrow> (Returned row, snd e)
      | Exhausted \<Rightarrow> (Raised, snd e)
      | FellThrough \<Rightarrow> (Returned None, snd e))"

section \<open>The store functions of \<^verbatim>\<open>worker/src/db.py\<close>\<close>

text \<open>
  The first argument is \<open>config.DB_RETRY_ATTEMPTS\<close>, the second says how each attempt
  ends, and \<open>now attempt\<close> is the value of \<open>NOW()\<close> in the statement of that attempt.
\<close>

definition acquire_task ::
  "int \<Rightarrow> (nat \<Rightarrow> attempt) \<Rightarrow> (nat \<Rightarrow> timestamp) \<Rightarrow> string \<Rightarrow> database
     \<Rightarrow> task_lease option outcome \<times> database" where
  "acquire_task n fails now worker_id d =
     row_result (for_attempts n fails
       (\<lambda>attempt d'. (fst (acquire_task_sql worker_id (now attempt) (tasks d')),
                      d'\<lparr>tasks := snd (acquire_task_sql worker_id (now attempt) (tasks d'))\<rparr>)) d)"

definition acquire_proxy ::
  "int \<Rightarrow> (nat \<Rightarrow> attempt) \<Rightarrow> (nat \<Rightarrow> timestamp) \<Rightarrow> string \<Rightarrow> database
     \<Rightarrow> proxy_lease option outcome \<times> database" where
  "acquire_proxy n fails now worker_id d =
     row_result (for_attempts n fails
       (\<lambda>attempt d'. (fst (acquire_proxy_sql worker_id (now attempt) (proxies d')),
                      d'\<lparr>proxies := snd (acquire_proxy_sql worker_id (now attempt) (proxies d'))\<rparr>)) d)"

definition release_proxy ::
  "int \<Rightarrow> (nat \<Rightarrow> attempt) \<Rightarrow> (nat \<Rightarrow> timestamp) \<Rightarrow> string \<Rightarrow> database
     \<Rightarrow> bool option outcome \<times> database" where
  "release_proxy n fails now proxy_string d =
     bool_result (for_attempts n fails
       (\<lambda>attempt d'. ((), d'\<lparr>proxies := release_proxy_sql (now attempt) proxy_string (proxies d')\<rparr>))
       d)"

definition mark_proxy_blocked ::
  "int \<Rightarrow> (nat \<Rightarrow> attempt) \<Rightarrow> string \<Rightarrow> database \<Rightarrow> bool option outcome \<times> database" where
  "mark_proxy_blocked n fails proxy_string d =
     bool_result (for_attempts n fails
       (\<lambda>attempt d'. ((), d'\<lparr>proxies := mark_proxy_blocked_sql proxy_string (proxies d')\<rparr>)) d)"

definition mark_task_completed ::
  "int \<Rightarrow> (nat \<Rightarrow> attempt) \<Rightarrow> (nat \<Rightarrow> timestamp) \<Rightarrow> int \<Rightarrow> database
     \<Rightarrow> bool option outcome \<times> database" where
  "mark_task_completed n fails now task_id d =
     bool_result (for_attempts n fails
       (\<lambda>attempt d'. ((), d'\<lparr>tasks := mark_task_completed_sql (now attempt) task_id (tasks d')\<rparr>))
       d)"

definition increment_task_attempts ::
  "int \<Rightarrow> (nat \<Rightarrow> attempt) \<Rightarrow> int \<Rightarrow> database \<Rightarrow> bool option outcome \<times> database" where
  "increment_task_attempts n fails task_id d =
     bool_result (for_attempts n fails
       (\<lambda>attempt d'. ((), d'\<lparr>tasks := increment_task_attempts_sql task_id (tasks d')\<rparr>)) d)"

definition increment_worker_stats ::
  "int \<Rightarrow> (nat \<Rightarrow> attempt) \<Rightarrow> string \<Rightarrow> bool \<Rightarrow> database
     \<Rightarrow> bool option outcome \<times> database" where
  "increment_worker_stats n fails worker_id success d =
     bool_result (for_attempts n fails
       (\<lambda>attempt d'.
          ((), d'\<lparr>workers := increment_worker_stats_sql worker_id success (workers d')\<rparr>)) d)"

definition update_heartbeat ::
  "int \<Rightarrow> (nat \<Rightarrow> attempt) \<Rightarrow> (nat \<Rightarrow> timestamp) \<Rightarrow> string \<Rightarrow> database
     \<Rightarrow> bool option outcome \<times> database" where
  "update_heartbeat n fails now worker_id d =
     bool_result (for_attempts n fails
       (\<lambda>attempt d'. ((), d'\<lparr>workers := update_heartbeat_sql (now attempt) worker_id (workers d')\<rparr>))
       d)"

text \<open>
  The result dictionary that \<open>process_item\<close> returns. \<open>worker_id\<close> and \<open>attempts\<close> are
  read with \<open>result[...]\<close>: \<open>None\<close> here is a missing key, and the \<open>KeyError\<close> is raised
  while the arguments of the statement are built, so every attempt raises before the
  statement. \<open>characteristics\<close> holds the text that \<open>json.dumps\<close> makes of the dictionary.
\<close>

record scrape_result =
  res_item_id :: int
  res_status :: string
  res_rotate_proxy :: bool
  res_worker_id :: "string option"
  res_attempts :: "int option"
  res_columns :: card_columns

definition result_args :: "scrape_result \<Rightarrow> result_row option" where
  "result_args res =
     (case res_worker_id res of
        None \<Rightarrow> None
      | Some w \<Rightarrow>
          (case res_attempts res of
             None \<Rightarrow> None
           | Some a \<Rightarrow>
               Some \<lparr>r_item_id = res_item_id res, r_columns = res_columns res,
                     r_status = res_status res, r_worker_id = w, r_attempts = a,
                     r_updated_at = None\<rparr>))"

definition save_result_to_db ::
  "int \<Rightarrow> (nat \<Rightarrow> attempt) \<Rightarrow> (nat \<Rightarrow> timestamp) \<Rightarrow> scrape_result \<Rightarrow> database
     \<Rightarrow> bool option outcome \<times> database" where
  "save_result_to_db n fails now res d =
     (case result_args res of
        None \<Rightarrow>
          bool_result (for_attempts n (\<lambda>attempt. RaisesBefore) (\<lambda>attempt d'. ((), d')) d)
      | Some row \<Rightarrow>
          bool_result (for_attempts n fails
            (\<lambda>attempt d'. ((), d'\<lparr>results := save_result_sql (now attempt) row (results d')\<rparr>))
            d))"

section \<open>Proxy strings\<close>

text \<open>
  A character is a code point below 256. \<open>str.split(sep)\<close> with a one-character separator
  cuts at every occurrence and always yields at least one part.
\<close>

fun py_split :: "char \<Rightarrow> string \<Rightarrow> string list" where
  "py_split sep [] = [[]]"
| "py_split sep (c # cs) =
     (if c = sep then [] # py_split sep cs
      else (case py_split sep cs of
              [] \<Rightarrow> [[c]]
            | part # parts \<Rightarrow> (c # part) # parts))"

text \<open>The characters below 256 that \<open>str.strip()\<close> treats as white space.\<close>

definition py_isspace :: "char \<Rightarrow> bool" where
  "py_isspace c = (of_char c \<in> {9, 10, 11, 12, 13, 28, 29, 30, 31, 32, 133, 160 :: nat})"

definition py_strip :: "string \<Rightarrow> string" where
  "py_strip s = rev (dropWhile py_isspace (rev (dropWhile py_isspace s)))"

definition is_digit :: "char \<Rightarrow> bool" where
  "is_digit c = (48 \<le> (of_char c :: nat) \<and> (of_char c :: nat) \<le> 57)"

definition digit_value :: "char \<Rightarrow> int" where
  "digit_value c = int (of_char c) - 48"

text \<open>
  The digits of a decimal literal as \<open>int()\<close> reads them: single underscores are allowed
  between digits. \<open>after_digit\<close> says whether the previous character was a digit.
\<close>

fun py_digits :: "bool \<Rightarrow> int \<Rightarrow> string \<Rightarrow> int option" where
  "py_digits after_digit acc [] = (if after_digit then Some acc else None)"
| "py_digits after_digit acc (c # cs) =
     (if is_digit c then py_digits True (10 * acc + digit_value c) cs
      else if c = CHR ''_'' \<and> after_digit then py_digits False acc cs
      else None)"

text \<open>
  The white space of \<open>int()\<close> is narrower than that of \<open>str.strip()\<close>: the separators
  \<open>0x1C\<close> to \<open>0x1F\<close> are not dropped, so a string that holds one is refused.
\<close>

definition int_isspace :: "char \<Rightarrow> bool" where
  "int_isspace c = (of_char c \<in> {9, 10, 11, 12, 13, 32, 133, 160 :: nat})"

text \<open>
  \<open>int(s)\<close> on a string: white space around is dropped, one sign is allowed, and a literal
  of more than 4300 digits is refused (the default limit of the interpreter). \<open>None\<close> is
  \<open>ValueError\<close>.
\<close>

definition py_int :: "string \<Rightarrow> int option" where
  "py_int s =
     (let body = rev (dropWhile int_isspace (rev (dropWhile int_isspace s)));
          negative = (body \<noteq> [] \<and> hd body = CHR ''-'');
          unsigned = (if body \<noteq> [] \<and> (hd body = CHR ''-'' \<or> hd body = CHR ''+'')
                      then tl body else body)
      in if length (filter is_digit unsigned) > 4300 then None
         else (case py_digits False 0 unsigned of
                 None \<Rightarrow> None
               | Some v \<Rightarrow> Some (if negative then - v else v)))"

text \<open>\<open>validate_proxy_format\<close> of \<^verbatim>\<open>cli/upload_proxies.py\<close>.\<close>

definition validate_proxy_format :: "string \<Rightarrow> bool" where
  "validate_proxy_format proxy =
     (case py_split CHR '':'' proxy of
        [host, port, user, password] \<Rightarrow>
          (if py_strip host = [] then False
           else (case py_int port of
                   None \<Rightarrow> False
                 | Some port_num \<Rightarrow> \<not> (port_num \<le> 0 \<or> port_num > 65535)))
      | _ \<Rightarrow> False)"

text \<open>\<open>parse_proxy\<close> of \<^verbatim>\<open>worker/src/utils.py\<close>.\<close>

datatype py_error = ValueError

record proxy_config =
  server :: string
  username :: string
  password :: string

definition parse_proxy :: "string \<Rightarrow> py_error + proxy_config" where
  "parse_proxy proxy_string =
     (case py_split CHR '':'' proxy_string of
        [host, port, user, pass] \<Rightarrow>
          Inr \<lparr>server = ''http://'' @ host @ '':'' @ port, username = user, password = pass\<rparr>
      | _ \<Rightarrow> Inl ValueError)"

section \<open>One task in the worker loop of \<^verbatim>\<open>worker/src/main.py\<close>\<close>

text \<open>
  What the surroundings do during one pass of the loop: for every store call how each of
  its attempts ends, and whether launching the browser raises. One clock serves the store
  calls of the pass: \<open>now attempt\<close> is \<open>NOW()\<close> in the attempt of that number of each call.
\<close>

record faults =
  mark_proxy_blocked_fails :: "nat \<Rightarrow> attempt"
  release_proxy_fails :: "nat \<Rightarrow> attempt"
  acquire_proxy_fails :: "nat \<Rightarrow> attempt"
  browser_launch_fails :: bool
  save_result_fails :: "nat \<Rightarrow> attempt"
  mark_task_completed_fails :: "nat \<Rightarrow> attempt"
  increment_task_attempts_fails :: "nat \<Rightarrow> attempt"
  increment_worker_stats_fails :: "nat \<Rightarrow> attempt"

text \<open>The slot holds the proxy string of its browser (\<open>None\<close> when it has none) and sees the
  database.\<close>

record slot =
  current_proxy :: "string option"
  db :: database

text \<open>
  \<open>init_playwright\<close>: lease a proxy, raise \<open>RuntimeError\<close> when there is none, parse it and
  launch the browser. It returns the proxy string.
\<close>

definition init_playwright ::
  "int \<Rightarrow> faults \<Rightarrow> (nat \<Rightarrow> timestamp) \<Rightarrow> string \<Rightarrow> database \<Rightarrow> string outcome \<times> database" where
  "init_playwright n flt now worker_id d =
     (case acquire_proxy n (acquire_proxy_fails flt) now worker_id d of
        (Raised, d') \<Rightarrow> (Raised, d')
      | (Returned None, d') \<Rightarrow> (Raised, d')
      | (Returned (Some proxy_data), d') \<Rightarrow>
          (case parse_proxy (leased_proxy proxy_data) of
             Inl e \<Rightarrow> (Raised, d')
           | Inr proxy_config \<Rightarrow>
               if browser_launch_fails flt then (Raised, d')
               else (Returned (leased_proxy proxy_data), d')))"

text \<open>
  The branch \<open>if result.get("rotate_proxy")\<close>: \<open>mark_proxy_blocked\<close>, then
  \<open>release_proxy\<close> on the same string, then a new \<open>init_playwright\<close>. With no proxy held
  the two updates compare the column with \<open>NULL\<close> and match no row.
\<close>

definition rotate_proxy ::
  "int \<Rightarrow> faults \<Rightarrow> (nat \<Rightarrow> timestamp) \<Rightarrow> string \<Rightarrow> slot \<Rightarrow> unit outcome \<times> slot" where
  "rotate_proxy n flt now worker_id st =
     (let d1 = (case current_proxy st of
                  None \<Rightarrow> db st
                | Some p \<Rightarrow> snd (mark_proxy_blocked n (mark_proxy_blocked_fails flt) p (db st)));
          d2 = (case current_proxy st of
                  None \<Rightarrow> d1
                | Some p \<Rightarrow> snd (release_proxy n (release_proxy_fails flt) now p d1))
      in (case init_playwright n flt now worker_id d2 of
            (Raised, d3) \<Rightarrow> (Raised, \<lparr>current_proxy = None, db = d3\<rparr>)
          | (Returned p', d3) \<Rightarrow> (Returned (), \<lparr>current_proxy = Some p', db = d3\<rparr>)))"

text \<open>The body of the inner \<open>try\<close>, from the result of \<open>process_item\<close> on.\<close>

definition try_body ::
  "int \<Rightarrow> faults \<Rightarrow> (nat \<Rightarrow> timestamp) \<Rightarrow> string \<Rightarrow> task_lease \<Rightarrow> scrape_result outcome \<Rightarrow> slot
     \<Rightarrow> unit outcome \<times> slot" where
  "try_body n flt now worker_id task item st =
     (case item of
        Raised \<Rightarrow> (Raised, st)
      | Returned result \<Rightarrow>
          (case (if res_rotate_proxy result then rotate_proxy n flt now worker_id st
                 else (Returned (), st)) of
             (Raised, st1) \<Rightarrow> (Raised, st1)
           | (Returned u, st1) \<Rightarrow>
               if res_status result = ''success'' \<or> res_status result = ''unavailable''
               then
                 (let d1 = snd (save_result_to_db n (save_result_fails flt) now result (db st1));
                      d2 = snd (mark_task_completed n (mark_task_completed_fails flt) now
                                  (leased_task_id task) d1);
                      d3 = snd (increment_worker_stats n (increment_worker_stats_fails flt)
                                  worker_id True d2)
                  in (Returned (), st1\<lparr>db := d3\<rparr>))
               else
                 (let d1 = snd (increment_task_attempts n (increment_task_attempts_fails flt)
                                  (leased_task_id task) (db st1));
                      d2 = snd (increment_worker_stats n (increment_worker_stats_fails flt)
                                  worker_id False d1)
                  in (Returned (), st1\<lparr>db := d2\<rparr>))))"

text \<open>The \<open>try\<close> with its \<open>except Exception\<close>: the task is given back and counted as failed.\<close>

definition process_task ::
  "int \<Rightarrow> faults \<Rightarrow> (nat \<Rightarrow> timestamp) \<Rightarrow> string \<Rightarrow> task_lease \<Rightarrow> scrape_result outcome \<Rightarrow> slot
     \<Rightarrow> slot" where
  "process_task n flt now worker_id task item st =
     (case try_body n flt now worker_id task item st of
        (Returned u, st') \<Rightarrow> st'
      | (Raised, st') \<Rightarrow>
          (let d1 = snd (increment_task_attempts n (increment_task_attempts_fails flt)
                           (leased_task_id task) (db st'));
               d2 = snd (increment_worker_stats n (increment_worker_stats_fails flt)
                           worker_id False d1)
           in st'\<lparr>db := d2\<rparr>))"

section \<open>The janitor of \<^verbatim>\<open>cleanup/cleanup.py\<close>\<close>

record Config =
  TASK_TIMEOUT :: int
  PROXY_TIMEOUT :: int
  WORKER_TIMEOUT :: int
  CLEANUP_INTERVAL :: int
  DB_RETRY_ATTEMPTS :: int

text \<open>A comparison with \<open>NULL\<close> selects no row.\<close>

definition older_than :: "timestamp option \<Rightarrow> timestamp \<Rightarrow> int \<Rightarrow> bool" where
  "older_than at now seconds = (case at of None \<Rightarrow> False | Some a \<Rightarrow> a < now - seconds)"

definition stuck_task :: "Config \<Rightarrow> timestamp \<Rightarrow> task \<Rightarrow> bool" where
  "stuck_task cfg now t =
     (t_status t = Processing \<and> older_than (t_last_attempt_at t) now (TASK_TIMEOUT cfg))"

definition release_stuck_tasks_sql :: "Config \<Rightarrow> timestamp \<Rightarrow> task list \<Rightarrow> task list" where
  "release_stuck_tasks_sql cfg now ts =
     map (\<lambda>t. if stuck_task cfg now t
               then t\<lparr>t_status := Pending, t_worker_id := None, t_last_attempt_at := None\<rparr>
               else t) ts"

definition stuck_proxy :: "Config \<Rightarrow> timestamp \<Rightarrow> proxy \<Rightarrow> bool" where
  "stuck_proxy cfg now p =
     (p_status p = Locked \<and> older_than (p_locked_at p) now (PROXY_TIMEOUT cfg))"

definition release_stuck_proxies_sql :: "Config \<Rightarrow> timestamp \<Rightarrow> proxy list \<Rightarrow> proxy list" where
  "release_stuck_proxies_sql cfg now ps =
     map (\<lambda>p. if stuck_proxy cfg now p
               then p\<lparr>p_status := Available, p_locked_by := None, p_locked_at := None,
                      p_last_used_at := Some now\<rparr>
               else p) ps"

definition dead_worker :: "Config \<Rightarrow> timestamp \<Rightarrow> worker \<Rightarrow> bool" where
  "dead_worker cfg now w =
     (w_status w = Active \<and> w_last_heartbeat w < now - WORKER_TIMEOUT cfg)"

definition mark_dead_workers_sql :: "Config \<Rightarrow> timestamp \<Rightarrow> worker list \<Rightarrow> worker list" where
  "mark_dead_workers_sql cfg now ws =
     map (\<lambda>w. if dead_worker cfg now w then w\<lparr>w_status := Stopped\<rparr> else w) ws"

definition impossible_task :: "task \<Rightarrow> bool" where
  "impossible_task t = (t_status t = Pending \<and> t_attempts t \<ge> t_max_attempts t)"

definition fail_impossible_tasks_sql :: "task list \<Rightarrow> task list" where
  "fail_impossible_tasks_sql ts =
     map (\<lambda>t. if impossible_task t then t\<lparr>t_status := Failed\<rparr> else t) ts"

text \<open>
  The four functions have the retry loop of the store functions. They return the number of
  rows the statement of the completing attempt changed, \<open>0\<close> when the retries are used up,
  and Python's \<open>None\<close> when the loop is never entered.
\<close>

definition count_result :: "int loop_end \<times> database \<Rightarrow> int option \<times> database" where
  "count_result e =
     (case fst e of
        Succeeded count \<Rightarrow> (Some count, snd e)
      | Exhausted \<Rightarrow> (Some 0, snd e)
      | FellThrough \<Rightarrow> (None, snd e))"

definition release_stuck_tasks ::
  "Config \<Rightarrow> (nat \<Rightarrow> attempt) \<Rightarrow> (nat \<Rightarrow> timestamp) \<Rightarrow> database \<Rightarrow> int option \<times> database" where
  "release_stuck_tasks cfg fails now d =
     count_result (for_attempts (DB_RETRY_ATTEMPTS cfg) fails
       (\<lambda>attempt d'.
          (int (length (filter (stuck_task cfg (now attempt)) (tasks d'))),
           d'\<lparr>tasks := release_stuck_tasks_sql cfg (now attempt) (tasks d')\<rparr>)) d)"

definition release_stuck_proxies ::
  "Config \<Rightarrow> (nat \<Rightarrow> attempt) \<Rightarrow> (nat \<Rightarrow> timestamp) \<Rightarrow> database \<Rightarrow> int option \<times> database" where
  "release_stuck_proxies cfg fails now d =
     count_result (for_attempts (DB_RETRY_ATTEMPTS cfg) fails
       (\<lambda>attempt d'.
          (int (length (filter (stuck_proxy cfg (now attempt)) (proxies d'))),
           d'\<lparr>proxies := release_stuck_proxies_sql cfg (now attempt) (proxies d')\<rparr>)) d)"

definition mark_dead_workers ::
  "Config \<Rightarrow> (nat \<Rightarrow> attempt) \<Rightarrow> (nat \<Rightarrow> timestamp) \<Rightarrow> database \<Rightarrow> int option \<times> database" where
  "mark_dead_workers cfg fails now d =
     count_result (for_attempts (DB_RETRY_ATTEMPTS cfg) fails
       (\<lambda>attempt d'.
          (int (length (filter (dead_worker cfg (now attempt)) (workers d'))),
           d'\<lparr>workers := mark_dead_workers_sql cfg (now attempt) (workers d')\<rparr>)) d)"

definition fail_impossible_tasks ::
  "Config \<Rightarrow> (nat \<Rightarrow> attempt) \<Rightarrow> database \<Rightarrow> int option \<times> database" where
  "fail_impossible_tasks cfg fails d =
     count_result (for_attempts (DB_RETRY_ATTEMPTS cfg) fails
       (\<lambda>attempt d'.
          (int (length (filter impossible_task (tasks d'))),
           d'\<lparr>tasks := fail_impossible_tasks_sql (tasks d')\<rparr>)) d)"

text \<open>
  One pass of the loop of \<open>main\<close> as the surroundings shape it: the clock of the cycle
  (\<open>NOW()\<close> in the attempt of that number of each step), how the attempts of each of the
  four steps end, and whether the shutdown signal arrives during the wait that follows the
  cycle.
\<close>

record tick =
  tick_now :: "nat \<Rightarrow> timestamp"
  tasks_step_fails :: "nat \<Rightarrow> attempt"
  proxies_step_fails :: "nat \<Rightarrow> attempt"
  workers_step_fails :: "nat \<Rightarrow> attempt"
  failed_step_fails :: "nat \<Rightarrow> attempt"
  signalled :: bool

definition cleanup_cycle :: "Config \<Rightarrow> tick \<Rightarrow> database \<Rightarrow> database" where
  "cleanup_cycle cfg tk d =
     (let d1 = snd (release_stuck_tasks cfg (tasks_step_fails tk) (tick_now tk) d);
          d2 = snd (release_stuck_proxies cfg (proxies_step_fails tk) (tick_now tk) d1);
          d3 = snd (mark_dead_workers cfg (workers_step_fails tk) (tick_now tk) d2);
          d4 = snd (fail_impossible_tasks cfg (failed_step_fails tk) d3)
      in d4)"

text \<open>
  How a run of \<open>main\<close> over the given ticks ends: \<open>init_pool\<close> raised, the loop was left
  after so many cycles, or the loop is still sweeping when the ticks are used up.
\<close>

datatype janitor_run = PoolInitFailed | Exited nat | Sweeping nat

fun sweep_loop :: "Config \<Rightarrow> tick list \<Rightarrow> nat \<Rightarrow> database \<Rightarrow> janitor_run \<times> database" where
  "sweep_loop cfg [] cycles d = (Sweeping cycles, d)"
| "sweep_loop cfg (tk # rest) cycles d =
     (let d' = cleanup_cycle cfg tk d
      in if signalled tk then (Exited (Suc cycles), d')
         else sweep_loop cfg rest (Suc cycles) d')"

text \<open>
  \<open>main\<close>: log the three timeouts, \<open>init_pool\<close>, then \<open>while not shutdown_event.is_set()\<close>.
  \<open>shutdown_set\<close> is the flag when the loop is first reached.
\<close>

definition cleanup_main ::
  "Config \<Rightarrow> bool \<Rightarrow> bool \<Rightarrow> tick list \<Rightarrow> database \<Rightarrow> janitor_run \<times> database" where
  "cleanup_main cfg init_pool_raises shutdown_set ticks d =
     (if init_pool_raises then (PoolInitFailed, d)
      else if shutdown_set then (Exited 0, d)
      else sweep_loop cfg ticks 0 d)"

definition cycles_run :: "janitor_run \<Rightarrow> nat" where
  "cycles_run r = (case r of PoolInitFailed \<Rightarrow> 0 | Exited k \<Rightarrow> k | Sweeping k \<Rightarrow> k)"

section \<open>Concrete rows and runs for the examples\<close>

definition no_failure :: "nat \<Rightarrow> attempt" where
  "no_failure attempt = Completes"

definition every_attempt_fails :: "nat \<Rightarrow> attempt" where
  "every_attempt_fails attempt = RaisesBefore"

text \<open>The first attempt applies its statement and then raises; the second completes.\<close>

definition answer_lost_once :: "nat \<Rightarrow> attempt" where
  "answer_lost_once attempt = (if attempt = 0 then RaisesAfter else Completes)"

text \<open>Every attempt applies its statement and then raises.\<close>

definition answer_lost_always :: "nat \<Rightarrow> attempt" where
  "answer_lost_always attempt = RaisesAfter"

definition steady_clock :: "timestamp \<Rightarrow> nat \<Rightarrow> timestamp" where
  "steady_clock t attempt = t"

definition no_faults :: faults where
  "no_faults =
     \<lparr>mark_proxy_blocked_fails = no_failure, release_proxy_fails = no_failure,
      acquire_proxy_fails = no_failure, browser_launch_fails = False,
      save_result_fails = no_failure, mark_task_completed_fails = no_failure,
      increment_task_attempts_fails = no_failure, increment_worker_stats_fails = no_failure\<rparr>"

definition save_fails :: faults where
  "save_fails = no_faults\<lparr>save_result_fails := every_attempt_fails\<rparr>"

definition example_task :: "int \<Rightarrow> task_status \<Rightarrow> string option \<Rightarrow> timestamp \<Rightarrow> task" where
  "example_task i st holder created =
     \<lparr>t_id = i, t_item_id = 100 + i, t_status = st, t_attempts = 1, t_max_attempts = 5,
      t_worker_id = holder, t_created_at = created,
      t_last_attempt_at = (if st = Processing then Some 50 else None), t_completed_at = None\<rparr>"

definition example_proxy :: "int \<Rightarrow> string \<Rightarrow> proxy_status \<Rightarrow> string option \<Rightarrow> proxy" where
  "example_proxy i s st holder =
     \<lparr>p_id = i, p_proxy = s, p_status = st, p_locked_by = holder,
      p_locked_at = (if st = Locked then Some 40 else None), p_last_used_at = None,
      p_uses_count = 1, p_blocks_count = 0\<rparr>"

definition example_db :: "task list \<Rightarrow> proxy list \<Rightarrow> database" where
  "example_db ts ps = \<lparr>tasks = ts, proxies = ps, workers = [], results = []\<rparr>"

text \<open>One task leased to slot \<open>w:0\<close>, which holds the only proxy.\<close>

definition leased_db :: database where
  "leased_db =
     example_db [example_task 1 Processing (Some ''w:0'') 10]
                [example_proxy 1 ''h:80:u:x'' Locked (Some ''w:0'')]"

definition example_slot :: slot where
  "example_slot = \<lparr>current_proxy = Some ''h:80:u:x'', db = leased_db\<rparr>"

definition example_lease :: task_lease where
  "example_lease = \<lparr>leased_task_id = 1, leased_item_id = 101, leased_attempts = 1\<rparr>"

definition empty_columns :: card_columns where
  "empty_columns =
     \<lparr>title = None, description = None, characteristics = ''{}'', price = None,
      published_at = None, seller_name = None, seller_profile_url = None,
      location_address = None, location_metro = None, location_region = None,
      views_total = None, failure_reason = None\<rparr>"

definition example_result :: "string \<Rightarrow> bool \<Rightarrow> scrape_result" where
  "example_result st rot =
     \<lparr>res_item_id = 101, res_status = st, res_rotate_proxy = rot,
      res_worker_id = Some ''w:0'', res_attempts = Some 1, res_columns = empty_columns\<rparr>"

text \<open>Timeouts in the reverse of the order the specification asks for.\<close>

definition misordered_config :: Config where
  "misordered_config =
     \<lparr>TASK_TIMEOUT = 100, PROXY_TIMEOUT = 300, WORKER_TIMEOUT = 600,
      CLEANUP_INTERVAL = 60, DB_RETRY_ATTEMPTS = 5\<rparr>"

definition quiet_tick :: "timestamp \<Rightarrow> bool \<Rightarrow> tick" where
  "quiet_tick t sig =
     \<lparr>tick_now = steady_clock t, tasks_step_fails = no_failure, proxies_step_fails = no_failure,
      workers_step_fails = no_failure, failed_step_fails = no_failure, signalled = sig\<rparr>"

section \<open>Facts about the retry loop\<close>

lemma attempts_loop_completes:
  assumes k: "int k < n" "fails k = Completes" "\<forall>j<k. fails j \<noteq> Completes"
    and step: "\<And>j t. j < k \<Longrightarrow> fails j = RaisesAfter \<Longrightarrow> P t \<Longrightarrow> P (snd (body j t))"
  shows "m \<le> k \<Longrightarrow> P s \<Longrightarrow>
         \<exists>t. P t \<and> attempts_loop n fails body [m..<nat n] s
                     = (Succeeded (fst (body k t)), snd (body k t))"
proof (induction "k - m" arbitrary: m s)
  case 0
  then have "m = k" by simp
  moreover have "[k..<nat n] = k # [Suc k..<nat n]"
    using k(1) by (simp add: upt_conv_Cons)
  ultimately show ?case using k(2) "0.prems"(2) by auto
next
  case (Suc x)
  then have mk: "m < k" by simp
  then have upt: "[m..<nat n] = m # [Suc m..<nat n]"
    using k(1) by (simp add: upt_conv_Cons)
  have more: "int m < n - 1" using mk k(1) by simp
  have nc: "fails m \<noteq> Completes" using k(3) mk by simp
  have next_le: "Suc m \<le> k" and diff: "x = k - Suc m" using mk Suc.hyps(2) by simp_all
  show ?case
  proof (cases "fails m")
    case Completes
    then show ?thesis using nc by simp
  next
    case RaisesBefore
    then show ?thesis
      using Suc.hyps(1) [OF diff next_le Suc.prems(2)] upt more by simp
  next
    case RaisesAfter
    have "P (snd (body m s))" using step [OF mk RaisesAfter Suc.prems(2)] .
    then show ?thesis
      using Suc.hyps(1) [OF diff next_le] upt more RaisesAfter by simp
  qed
qed

text \<open>The attempts before the completing one raised before their statement.\<close>

lemma for_attempts_clean:
  assumes "int k < n" "fails k = Completes" "\<forall>j<k. fails j = RaisesBefore"
  shows "for_attempts n fails body s = (Succeeded (fst (body k s)), snd (body k s))"
proof -
  have nc: "\<forall>j<k. fails j \<noteq> Completes" using assms(3) by simp
  have "\<exists>t. t = s \<and> attempts_loop n fails body [0..<nat n] s
                     = (Succeeded (fst (body k t)), snd (body k t))"
    using assms(3)
    by (intro attempts_loop_completes [where P = "\<lambda>t. t = s", OF assms(1,2) nc]) auto
  then show ?thesis by (simp add: for_attempts_def)
qed

text \<open>A statement that overwrites what an earlier run of it wrote.\<close>

lemma for_attempts_overwriting:
  assumes "int k < n" "fails k = Completes" "\<forall>j<k. fails j \<noteq> Completes"
    and over: "\<And>a b t. body a (snd (body b t)) = body a t"
  shows "for_attempts n fails body s = (Succeeded (fst (body k s)), snd (body k s))"
proof -
  have "\<exists>t. (\<forall>a. body a t = body a s) \<and> attempts_loop n fails body [0..<nat n] s
                     = (Succeeded (fst (body k t)), snd (body k t))"
    by (intro attempts_loop_completes [where P = "\<lambda>t. \<forall>a. body a t = body a s",
          OF assms(1,2,3)]) (auto simp: over)
  then show ?thesis by (auto simp: for_attempts_def)
qed

lemma attempts_loop_exhausted:
  assumes "\<forall>i. int i < n \<longrightarrow> fails i \<noteq> Completes"
  shows "m < nat n \<Longrightarrow> fst (attempts_loop n fails body [m..<nat n] s) = Exhausted"
proof (induction "nat n - m" arbitrary: m s)
  case 0
  then show ?case by simp
next
  case (Suc x)
  have m: "m < nat n" by fact
  then have upt: "[m..<nat n] = m # [Suc m..<nat n]" by (simp add: upt_conv_Cons)
  have nc: "fails m \<noteq> Completes" using assms m by auto
  show ?case
  proof (cases "int m < n - 1")
    case True
    then have "Suc m < nat n" by linarith
    moreover have "x = nat n - Suc m" using Suc.hyps(2) by linarith
    ultimately have "\<And>t. fst (attempts_loop n fails body [Suc m..<nat n] t) = Exhausted"
      using Suc.hyps(1) by blast
    then show ?thesis using upt nc True by (cases "fails m") simp_all
  next
    case False
    then show ?thesis using upt nc by (cases "fails m") simp_all
  qed
qed

lemma attempts_loop_untouched:
  assumes "\<forall>i. int i < n \<longrightarrow> fails i = RaisesBefore"
  shows "snd (attempts_loop n fails body ms s) = s \<or> \<not> (\<forall>i \<in> set ms. int i < n)"
  using assms by (induction ms arbitrary: s) auto

lemma for_attempts_exhausted:
  "0 < n \<Longrightarrow> \<forall>i. int i < n \<longrightarrow> fails i \<noteq> Completes \<Longrightarrow>
   fst (for_attempts n fails body s) = Exhausted"
  unfolding for_attempts_def using attempts_loop_exhausted [of n fails 0 body s] by simp

lemma for_attempts_untouched:
  "\<forall>i. int i < n \<longrightarrow> fails i = RaisesBefore \<Longrightarrow> snd (for_attempts n fails body s) = s"
  unfolding for_attempts_def using attempts_loop_untouched [of n fails body "[0..<nat n]" s]
  by auto

lemma for_attempts_no_failure:
  "for_attempts 5 no_failure body s = (Succeeded (fst (body 0 s)), snd (body 0 s))"
  by (rule for_attempts_clean) (simp_all add: no_failure_def)

lemma for_attempts_every_attempt_fails:
  "for_attempts 5 every_attempt_fails body s = (Exhausted, s)"
proof -
  have "fst (for_attempts 5 every_attempt_fails body s) = Exhausted"
    by (rule for_attempts_exhausted) (simp_all add: every_attempt_fails_def)
  moreover have "snd (for_attempts 5 every_attempt_fails body s) = s"
    by (rule for_attempts_untouched) (simp add: every_attempt_fails_def)
  ultimately show ?thesis by (simp add: prod_eq_iff)
qed

lemma for_attempts_answer_lost_once:
  "for_attempts 5 answer_lost_once body s
     = (Succeeded (fst (body 1 (snd (body 0 s)))), snd (body 1 (snd (body 0 s))))"
  by (simp add: for_attempts_def answer_lost_once_def upt_conv_Cons)

section \<open>Proxy rotation in the worker loop\<close>

text \<open>
  C1. The claim: a proxy that \<open>mark_proxy_blocked\<close> was applied to stays blocked and is not
  leased again; the rotation path never makes a just-blocked proxy available. The code on
  the slot that holds the only proxy, with a result that asks for rotation and no store
  failure: \<open>release_proxy\<close> follows \<open>mark_proxy_blocked\<close> on the same string and sets the
  row to available, and the \<open>acquire_proxy\<close> of the new \<open>init_playwright\<close> leases this very
  proxy again. After the pass the slot runs on the proxy it has just counted as blocked.
\<close>

theorem rotation_releases_blocked_proxy:
  "map p_status (proxies (snd (mark_proxy_blocked 5 no_failure ''h:80:u:x'' leased_db)))
     = [Blocked] \<and>
   map p_status (proxies (snd (release_proxy 5 no_failure (steady_clock 77) ''h:80:u:x''
       (snd (mark_proxy_blocked 5 no_failure ''h:80:u:x'' leased_db))))) = [Available] \<and>
   current_proxy (process_task 5 no_faults (steady_clock 77) ''w:0'' example_lease
       (Returned (example_result ''error'' True)) example_slot) = Some ''h:80:u:x'' \<and>
   map p_status (proxies (db (process_task 5 no_faults (steady_clock 77) ''w:0'' example_lease
       (Returned (example_result ''error'' True)) example_slot))) = [Locked] \<and>
   map p_blocks_count (proxies (db (process_task 5 no_faults (steady_clock 77) ''w:0'' example_lease
       (Returned (example_result ''error'' True)) example_slot))) = [1]"
  by (simp add: process_task_def try_body_def rotate_proxy_def init_playwright_def
      acquire_proxy_def acquire_proxy_sql_def select_available_proxy_def lease_proxy_def
      parse_proxy_def mark_proxy_blocked_def mark_proxy_blocked_sql_def release_proxy_def
      release_proxy_sql_def increment_task_attempts_def increment_task_attempts_sql_def
      increment_worker_stats_def increment_worker_stats_sql_def for_attempts_no_failure
      no_faults_def example_slot_def example_lease_def example_result_def leased_db_def
      example_db_def example_task_def example_proxy_def Let_def
      bool_result_def row_result_def steady_clock_def)

section \<open>Saving a result and completing the task\<close>

text \<open>
  C2. The claim: a task is never marked completed without its result row having been saved.
  The code with a successful result whose \<open>save_result_to_db\<close> fails on every attempt:
  the function returns \<open>False\<close>, the loop does not look at the value, and
  \<open>mark_task_completed\<close> runs. The task is completed and the results table is empty.
\<close>

theorem completed_without_result:
  "fst (save_result_to_db 5 every_attempt_fails (steady_clock 77) (example_result ''success'' False) leased_db)
     = Returned (Some False) \<and>
   map t_status (tasks (db (process_task 5 save_fails (steady_clock 77) ''w:0'' example_lease
       (Returned (example_result ''success'' False)) example_slot))) = [Completed] \<and>
   results (db (process_task 5 save_fails (steady_clock 77) ''w:0'' example_lease
       (Returned (example_result ''success'' False)) example_slot)) = []"
  by (simp add: process_task_def try_body_def save_result_to_db_def result_args_def
      mark_task_completed_def mark_task_completed_sql_def
      increment_worker_stats_def increment_worker_stats_sql_def
      for_attempts_no_failure for_attempts_every_attempt_fails
      save_fails_def no_faults_def example_slot_def example_lease_def example_result_def
      leased_db_def example_db_def example_task_def example_proxy_def Let_def
      bool_result_def row_result_def steady_clock_def)

section \<open>\<open>release_proxy\<close>\<close>

text \<open>
  C3. The claim: \<open>release_proxy\<close> leaves a proxy that is not locked unchanged. The code on
  a blocked proxy: the update has no condition on the status, so the row becomes available
  and its \<open>last_used_at\<close> is set.
\<close>

theorem release_proxy_unblocks:
  "map p_status (proxies (example_db [] [example_proxy 1 ''h:80:u:x'' Blocked None]))
     = [Blocked] \<and>
   map p_status (proxies (snd (release_proxy 5 no_failure (steady_clock 77) ''h:80:u:x''
       (example_db [] [example_proxy 1 ''h:80:u:x'' Blocked None])))) = [Available] \<and>
   map p_last_used_at (proxies (snd (release_proxy 5 no_failure (steady_clock 77) ''h:80:u:x''
       (example_db [] [example_proxy 1 ''h:80:u:x'' Blocked None])))) = [Some 77]"
  by (simp add: release_proxy_def release_proxy_sql_def for_attempts_no_failure
      example_db_def example_proxy_def bool_result_def steady_clock_def)

section \<open>What a store function does when every attempt fails\<close>

text \<open>
  C4, as the claim states it: every store function but the heartbeat raises once all
  attempts have failed. It fails for \<open>release_proxy\<close>, which returns \<open>False\<close>.
\<close>

theorem release_proxy_returns_false:
  "fst (release_proxy 5 every_attempt_fails (steady_clock 77) ''h:80:u:x'' leased_db)
     = Returned (Some False) \<and>
   fst (release_proxy 5 every_attempt_fails (steady_clock 77) ''h:80:u:x'' leased_db) \<noteq> Raised"
  by (simp add: release_proxy_def for_attempts_every_attempt_fails bool_result_def)

text \<open>
  C4, amended: when the retry count is positive and no attempt completes, \<open>acquire_task\<close>
  and \<open>acquire_proxy\<close> raise; \<open>release_proxy\<close>, \<open>mark_proxy_blocked\<close>,
  \<open>mark_task_completed\<close>, \<open>increment_task_attempts\<close>, \<open>increment_worker_stats\<close>,
  \<open>save_result_to_db\<close> and \<open>update_heartbeat\<close> return \<open>False\<close> and raise nothing. This
  holds whether or not a failing attempt had applied its statement; nothing is said here
  about the tables, nor about what is logged.
\<close>

theorem store_failure_results:
  assumes "0 < n" and "\<forall>i. int i < n \<longrightarrow> fails i \<noteq> Completes"
  shows "fst (acquire_task n fails now worker_id d) = Raised \<and>
         fst (acquire_proxy n fails now worker_id d) = Raised \<and>
         fst (release_proxy n fails now proxy_string d) = Returned (Some False) \<and>
         fst (mark_proxy_blocked n fails proxy_string d) = Returned (Some False) \<and>
         fst (mark_task_completed n fails now task_id d) = Returned (Some False) \<and>
         fst (increment_task_attempts n fails task_id d) = Returned (Some False) \<and>
         fst (increment_worker_stats n fails worker_id success d) = Returned (Some False) \<and>
         fst (save_result_to_db n fails now res d) = Returned (Some False) \<and>
         fst (update_heartbeat n fails now worker_id d) = Returned (Some False)"
proof -
  have ex: "fst (for_attempts n fails body s) = Exhausted" for body :: "nat \<Rightarrow> database \<Rightarrow> 'r \<times> database" and s
    using assms by (rule for_attempts_exhausted)
  have ex': "fst (for_attempts n (\<lambda>attempt. RaisesBefore) body s) = Exhausted"
    for body :: "nat \<Rightarrow> database \<Rightarrow> unit \<times> database" and s
    using assms(1) by (simp add: for_attempts_exhausted)
  show ?thesis
    by (simp add: acquire_task_def acquire_proxy_def release_proxy_def mark_proxy_blocked_def
        mark_task_completed_def increment_task_attempts_def increment_worker_stats_def
        save_result_to_db_def update_heartbeat_def bool_result_def row_result_def ex ex'
        split: option.split)
qed

theorem store_failure_results_witness:
  "(0::int) < 5 \<and> list_all (\<lambda>i. answer_lost_always i \<noteq> Completes) [0, 1, 2, 3, 4] \<and>
   fst (acquire_task 5 answer_lost_always (steady_clock 77) ''w:0'' leased_db) = Raised \<and>
   fst (mark_task_completed 5 answer_lost_always (steady_clock 77) 1 leased_db)
     = Returned (Some False) \<and>
   fst (update_heartbeat 5 answer_lost_always (steady_clock 77) ''w:0'' leased_db)
     = Returned (Some False)"
proof -
  have pos: "(0::int) < 5" by simp
  have all: "\<forall>i. int i < 5 \<longrightarrow> answer_lost_always i \<noteq> Completes"
    by (simp add: answer_lost_always_def)
  have listed: "list_all (\<lambda>i. answer_lost_always i \<noteq> Completes) [0, 1, 2, 3, 4]"
    by (simp add: answer_lost_always_def)
  show ?thesis
    using pos listed
      store_failure_results [OF pos all, of "steady_clock 77" "''w:0''" leased_db
        "''h:80:u:x''" 1 True "example_result ''success'' False"]
    by simp
qed

section \<open>\<open>mark_task_completed\<close>\<close>

lemma mark_task_completed_sql_twice:
  "mark_task_completed_sql a task_id (mark_task_completed_sql b task_id ts)
     = mark_task_completed_sql a task_id ts"
  by (induction ts) (simp_all add: mark_task_completed_sql_def)

lemma mark_task_completed_run:
  assumes "int k < n" and "fails k = Completes" and "\<forall>j<k. fails j \<noteq> Completes"
  shows "mark_task_completed n fails now task_id d
           = (Returned (Some True),
              d\<lparr>tasks := mark_task_completed_sql (now k) task_id (tasks d)\<rparr>)"
  unfolding mark_task_completed_def
  by (subst for_attempts_overwriting [OF assms])
     (simp_all add: mark_task_completed_sql_twice bool_result_def)

text \<open>
  C5, as the claim states it: \<open>mark_task_completed\<close> clears \<open>worker_id\<close>. It fails on the
  task leased to \<open>w:0\<close>: the row is completed at the given time and still names \<open>w:0\<close>.
\<close>

theorem mark_task_completed_keeps_worker_id:
  "map t_status (tasks (snd (mark_task_completed 5 no_failure (steady_clock 77) 1 leased_db)))
     = [Completed] \<and>
   map t_completed_at
       (tasks (snd (mark_task_completed 5 no_failure (steady_clock 77) 1 leased_db)))
     = [Some 77] \<and>
   map t_worker_id (tasks (snd (mark_task_completed 5 no_failure (steady_clock 77) 1 leased_db)))
     = [Some ''w:0'']"
  by (simp add: mark_task_completed_def mark_task_completed_sql_def for_attempts_no_failure
      leased_db_def example_db_def example_task_def bool_result_def steady_clock_def)

text \<open>
  C5, amended: when attempt \<open>k\<close> is the first that completes, whatever became of the
  attempts before it, \<open>mark_task_completed\<close> returns \<open>True\<close>; every row with this id gets
  status completed and \<open>completed_at\<close> the time of that attempt, and keeps its \<open>worker_id\<close>
  and every other column; the other rows are unchanged.
\<close>

theorem mark_task_completed_row:
  assumes "int k < n" and "fails k = Completes" and "\<forall>j<k. fails j \<noteq> Completes"
    and "i < length (tasks d)"
  shows "let t = tasks d ! i;
             t' = tasks (snd (mark_task_completed n fails now task_id d)) ! i
         in fst (mark_task_completed n fails now task_id d) = Returned (Some True) \<and>
            length (tasks (snd (mark_task_completed n fails now task_id d))) = length (tasks d) \<and>
            (if t_id t = task_id
             then t_status t' = Completed \<and> t_completed_at t' = Some (now k) \<and>
                  t_worker_id t' = t_worker_id t \<and>
                  t_last_attempt_at t' = t_last_attempt_at t \<and>
                  t_attempts t' = t_attempts t \<and> t_max_attempts t' = t_max_attempts t \<and>
                  t_id t' = t_id t \<and> t_item_id t' = t_item_id t \<and>
                  t_created_at t' = t_created_at t
             else t' = t)"
  using assms(4)
  by (simp add: mark_task_completed_run [OF assms(1,2,3)] mark_task_completed_sql_def Let_def)

theorem mark_task_completed_row_witness:
  "int 1 < 5 \<and> answer_lost_once 1 = Completes \<and> answer_lost_once 0 \<noteq> Completes \<and>
   0 < length (tasks leased_db) \<and>
   t_status (tasks (snd (mark_task_completed 5 answer_lost_once (steady_clock 77) 1 leased_db)) ! 0)
     = Completed \<and>
   t_completed_at
       (tasks (snd (mark_task_completed 5 answer_lost_once (steady_clock 77) 1 leased_db)) ! 0)
     = Some 77 \<and>
   t_worker_id
       (tasks (snd (mark_task_completed 5 answer_lost_once (steady_clock 77) 1 leased_db)) ! 0)
     = Some ''w:0''"
proof -
  have k: "int 1 < 5" "answer_lost_once 1 = Completes"
    and before: "\<forall>j<1. answer_lost_once j \<noteq> Completes"
    by (simp_all add: answer_lost_once_def)
  have len: "0 < length (tasks leased_db)"
    by (simp add: leased_db_def example_db_def)
  show ?thesis
    using k before len
      mark_task_completed_row [OF k before len, of "steady_clock 77" 1]
    by (simp add: leased_db_def example_db_def example_task_def steady_clock_def Let_def)
qed

section \<open>\<open>mark_proxy_blocked\<close>\<close>

lemma mark_proxy_blocked_run:
  assumes "int k < n" and "fails k = Completes" and "\<forall>j<k. fails j = RaisesBefore"
  shows "mark_proxy_blocked n fails proxy_string d
           = (Returned (Some True),
              d\<lparr>proxies := mark_proxy_blocked_sql proxy_string (proxies d)\<rparr>)"
  unfolding mark_proxy_blocked_def
  by (simp add: for_attempts_clean [OF assms] bool_result_def)

text \<open>
  The update counts each time it is applied: when the first attempt applies it and then
  raises, the second attempt applies it again, and the call returns \<open>True\<close> with
  \<open>blocks_count\<close> two higher.
\<close>

lemma mark_proxy_blocked_counts_each_run:
  "fst (mark_proxy_blocked 5 answer_lost_once ''h:80:u:x'' leased_db) = Returned (Some True) \<and>
   map p_blocks_count (proxies (snd (mark_proxy_blocked 5 answer_lost_once ''h:80:u:x'' leased_db)))
     = [2]"
  by (simp add: mark_proxy_blocked_def mark_proxy_blocked_sql_def for_attempts_answer_lost_once
      leased_db_def example_db_def example_proxy_def bool_result_def)

text \<open>
  C6, as the claim states it: \<open>mark_proxy_blocked\<close> clears \<open>locked_by\<close> and \<open>locked_at\<close>.
  It fails on the proxy locked by \<open>w:0\<close>: the row is blocked, counted once, and still
  carries both lease columns.
\<close>

theorem mark_proxy_blocked_keeps_lease:
  "map p_status (proxies (snd (mark_proxy_blocked 5 no_failure ''h:80:u:x'' leased_db)))
     = [Blocked] \<and>
   map p_blocks_count (proxies (snd (mark_proxy_blocked 5 no_failure ''h:80:u:x'' leased_db)))
     = [1] \<and>
   map p_locked_by (proxies (snd (mark_proxy_blocked 5 no_failure ''h:80:u:x'' leased_db)))
     = [Some ''w:0''] \<and>
   map p_locked_at (proxies (snd (mark_proxy_blocked 5 no_failure ''h:80:u:x'' leased_db)))
     = [Some 40]"
  by (simp add: mark_proxy_blocked_def mark_proxy_blocked_sql_def for_attempts_no_failure
      leased_db_def example_db_def example_proxy_def bool_result_def)

text \<open>
  C6, amended: when attempt \<open>k\<close> completes and every attempt before it raised before its
  statement was applied (so for a first attempt that succeeds), \<open>mark_proxy_blocked\<close>
  returns \<open>True\<close>; every row with this proxy string, whatever its status, gets status
  blocked and \<open>blocks_count\<close> one higher, and keeps \<open>locked_by\<close>, \<open>locked_at\<close> and every
  other column; the other rows are unchanged.
\<close>

theorem mark_proxy_blocked_row:
  assumes "int k < n" and "fails k = Completes" and "\<forall>j<k. fails j = RaisesBefore"
    and "i < length (proxies d)"
  shows "let p = proxies d ! i;
             p' = proxies (snd (mark_proxy_blocked n fails proxy_string d)) ! i
         in fst (mark_proxy_blocked n fails proxy_string d) = Returned (Some True) \<and>
            length (proxies (snd (mark_proxy_blocked n fails proxy_string d)))
              = length (proxies d) \<and>
            tasks (snd (mark_proxy_blocked n fails proxy_string d)) = tasks d \<and>
            (if p_proxy p = proxy_string
             then p_status p' = Blocked \<and> p_blocks_count p' = p_blocks_count p + 1 \<and>
                  p_locked_by p' = p_locked_by p \<and> p_locked_at p' = p_locked_at p \<and>
                  p_last_used_at p' = p_last_used_at p \<and> p_uses_count p' = p_uses_count p \<and>
                  p_id p' = p_id p \<and> p_proxy p' = p_proxy p
             else p' = p)"
  using assms(4)
  by (simp add: mark_proxy_blocked_run [OF assms(1,2,3)] mark_proxy_blocked_sql_def Let_def)

theorem mark_proxy_blocked_row_witness:
  "int 0 < 5 \<and> no_failure 0 = Completes \<and> 0 < length (proxies leased_db) \<and>
   p_status (proxies (snd (mark_proxy_blocked 5 no_failure ''h:80:u:x'' leased_db)) ! 0)
     = Blocked \<and>
   p_blocks_count (proxies (snd (mark_proxy_blocked 5 no_failure ''h:80:u:x'' leased_db)) ! 0)
     = 1 \<and>
   p_locked_by (proxies (snd (mark_proxy_blocked 5 no_failure ''h:80:u:x'' leased_db)) ! 0)
     = Some ''w:0''"
proof -
  have k: "int 0 < 5" "no_failure 0 = Completes"
    and before: "\<forall>j<0. no_failure j = RaisesBefore"
    by (simp_all add: no_failure_def)
  have len: "0 < length (proxies leased_db)"
    by (simp add: leased_db_def example_db_def)
  show ?thesis
    using k len mark_proxy_blocked_row [OF k before len, of "''h:80:u:x''"]
    by (simp add: leased_db_def example_db_def example_proxy_def Let_def)
qed

section \<open>\<open>acquire_task\<close>\<close>

lemma earliest_created_mem: "earliest_created best ts \<in> set (best # ts)"
  by (induction ts arbitrary: best) (auto split: if_splits)

lemma earliest_created_le_best: "t_created_at (earliest_created best ts) \<le> t_created_at best"
proof (induction ts arbitrary: best)
  case Nil
  show ?case by simp
next
  case (Cons t ts)
  show ?case
    using Cons.IH [of t] Cons.IH [of best] by auto
qed

lemma earliest_created_least:
  "u \<in> set ts \<Longrightarrow> t_created_at (earliest_created best ts) \<le> t_created_at u"
proof (induction ts arbitrary: best)
  case Nil
  then show ?case by simp
next
  case (Cons t ts)
  show ?case
  proof (cases "u = t")
    case True
    then show ?thesis
      using earliest_created_le_best [of t ts] earliest_created_le_best [of best ts] by auto
  next
    case False
    then have "u \<in> set ts" using Cons.prems by simp
    then show ?thesis using Cons.IH by auto
  qed
qed

lemma select_pending_task_none:
  "(select_pending_task ts = None) = (\<forall>t \<in> set ts. t_status t \<noteq> Pending)"
proof -
  have "(filter (\<lambda>t. t_status t = Pending) ts = []) = (\<forall>t \<in> set ts. t_status t \<noteq> Pending)"
    by (simp add: filter_empty_conv)
  then show ?thesis
    by (cases "filter (\<lambda>t. t_status t = Pending) ts") (simp_all add: select_pending_task_def)
qed

lemma select_pending_task_some:
  assumes "select_pending_task ts = Some sel"
  shows "sel \<in> set ts \<and> t_status sel = Pending \<and>
         (\<forall>u \<in> set ts. t_status u = Pending \<longrightarrow> t_created_at sel \<le> t_created_at u)"
proof -
  obtain t rest where f: "filter (\<lambda>t. t_status t = Pending) ts = t # rest"
    and sel: "sel = earliest_created t rest"
    using assms by (auto simp: select_pending_task_def split: list.splits)
  have "sel \<in> set (t # rest)" using sel earliest_created_mem by simp
  then have mem: "sel \<in> set (filter (\<lambda>t. t_status t = Pending) ts)" using f by simp
  have least: "t_created_at sel \<le> t_created_at u"
    if "u \<in> set ts" "t_status u = Pending" for u
  proof -
    have "u \<in> set (t # rest)" using that f [symmetric] by simp
    then show ?thesis
      using sel earliest_created_le_best [of t rest] earliest_created_least [of u rest t] by auto
  qed
  show ?thesis using mem least by auto
qed

lemma find_leased_row:
  assumes "sel \<in> set ts" and "t_id sel = k"
  shows "\<exists>row. find (\<lambda>t. t_id t = k) (map (\<lambda>t. if t_id t = k then lease_task w now t else t) ts)
           = Some row \<and> t_id row = k"
proof -
  let ?ts' = "map (\<lambda>t. if t_id t = k then lease_task w now t else t) ts"
  have "lease_task w now sel \<in> set ?ts'"
    using assms by force
  moreover have "t_id (lease_task w now sel) = k"
    using assms by (simp add: lease_task_def)
  ultimately have "find (\<lambda>t. t_id t = k) ?ts' \<noteq> None"
    by (auto simp: find_None_iff)
  then obtain row where row: "find (\<lambda>t. t_id t = k) ?ts' = Some row" by auto
  then have "t_id row = k" by (auto simp: find_Some_iff)
  then show ?thesis using row by simp
qed

lemma find_map_keeping:
  assumes "\<And>x. P (f x) = P x"
  shows "find P (map f xs) = map_option f (find P xs)"
  using assms by (induction xs) simp_all

lemma acquire_task_sql_none:
  "(fst (acquire_task_sql w now ts) = None) = (\<forall>t \<in> set ts. t_status t \<noteq> Pending)"
proof (cases "select_pending_task ts")
  case None
  then show ?thesis
    using select_pending_task_none [of ts] by (simp add: acquire_task_sql_def)
next
  case (Some sel)
  then have mem: "sel \<in> set ts" and pen: "t_status sel = Pending"
    using select_pending_task_some by auto
  obtain row where "find (\<lambda>t. t_id t = t_id sel)
      (map (\<lambda>t. if t_id t = t_id sel then lease_task w now t else t) ts) = Some row"
    using find_leased_row [OF mem refl, of w now] by auto
  then show ?thesis
    using Some mem pen by (auto simp: acquire_task_sql_def Let_def)
qed

text \<open>What the statement returns and writes when a task is pending.\<close>

lemma acquire_task_sql_some:
  assumes "select_pending_task ts = Some sel"
  shows "\<exists>row \<in> set ts. t_id row = t_id sel \<and>
           acquire_task_sql w now ts
             = (Some \<lparr>leased_task_id = t_id sel, leased_item_id = t_item_id row,
                      leased_attempts = t_attempts row + 1\<rparr>,
                map (\<lambda>u. if t_id u = t_id sel then lease_task w now u else u) ts)"
proof -
  let ?f = "\<lambda>u. if t_id u = t_id sel then lease_task w now u else u"
  have mem: "sel \<in> set ts" using select_pending_task_some [OF assms] by simp
  have keep: "(t_id (?f x) = t_id sel) = (t_id x = t_id sel)" for x
    by (simp add: lease_task_def)
  have found: "find (\<lambda>t. t_id t = t_id sel) (map ?f ts)
                 = map_option ?f (find (\<lambda>t. t_id t = t_id sel) ts)"
    by (rule find_map_keeping) (rule keep)
  have "find (\<lambda>t. t_id t = t_id sel) ts \<noteq> None"
    using mem by (auto simp: find_None_iff)
  then obtain row where row: "find (\<lambda>t. t_id t = t_id sel) ts = Some row" by auto
  then have rid: "t_id row = t_id sel" and rmem: "row \<in> set ts"
    by (auto simp: find_Some_iff)
  have "acquire_task_sql w now ts
          = (Some \<lparr>leased_task_id = t_id sel, leased_item_id = t_item_id row,
                   leased_attempts = t_attempts row + 1\<rparr>, map ?f ts)"
    using assms found row rid by (simp add: acquire_task_sql_def Let_def lease_task_def)
  then show ?thesis using rid rmem by blast
qed

text \<open>
  A lease can be lost: when the first attempt leases the only pending task and then
  raises, the second attempt finds no pending task, and the call returns none while the
  task is left in processing.
\<close>

lemma acquire_task_lost_lease:
  "acquire_task 5 answer_lost_once (steady_clock 77) ''w:0''
       (example_db [example_task 1 Pending None 10] []) =
     (Returned None,
      example_db [(example_task 1 Processing (Some ''w:0'') 10)
                    \<lparr>t_attempts := 2, t_last_attempt_at := Some 77\<rparr>] [])"
  by (simp add: acquire_task_def acquire_task_sql_def select_pending_task_def lease_task_def
      for_attempts_answer_lost_once row_result_def steady_clock_def example_db_def
      example_task_def)

text \<open>
  C7, amended: when attempt \<open>k\<close> completes and every attempt before it raised before its
  statement was applied, \<open>acquire_task\<close> returns none exactly when no task is pending.
  When a task is pending it returns a lease: the task leased is a pending one whose
  \<open>created_at\<close> is least among the pending tasks, the rows with its id become processing
  for this worker with \<open>last_attempt_at\<close> the time of the attempt and one more attempt, and
  nothing else changes. Which of several pending tasks with the same least \<open>created_at\<close>
  is leased is not fixed: the statement sorts by \<open>created_at\<close> alone.
\<close>

theorem acquire_task_oldest_pending:
  assumes "int k < n" and "fails k = Completes" and "\<forall>j<k. fails j = RaisesBefore"
  shows "((fst (acquire_task n fails now worker_id d) = Returned None)
            = (\<forall>t \<in> set (tasks d). t_status t \<noteq> Pending)) \<and>
         ((\<exists>t \<in> set (tasks d). t_status t = Pending) \<longrightarrow>
            (\<exists>t row.
               t \<in> set (tasks d) \<and> t_status t = Pending \<and>
               (\<forall>u \<in> set (tasks d). t_status u = Pending \<longrightarrow>
                  t_created_at t \<le> t_created_at u) \<and>
               row \<in> set (tasks d) \<and> t_id row = t_id t \<and>
               fst (acquire_task n fails now worker_id d)
                 = Returned (Some \<lparr>leased_task_id = t_id t, leased_item_id = t_item_id row,
                                   leased_attempts = t_attempts row + 1\<rparr>) \<and>
               snd (acquire_task n fails now worker_id d)
                 = d\<lparr>tasks :=
                       map (\<lambda>u. if t_id u = t_id t
                                 then u\<lparr>t_status := Processing,
                                        t_worker_id := Some worker_id,
                                        t_last_attempt_at := Some (now k),
                                        t_attempts := t_attempts u + 1\<rparr>
                                 else u) (tasks d)\<rparr>))"
proof -
  have run: "acquire_task n fails now worker_id d
               = row_result (Succeeded (fst (acquire_task_sql worker_id (now k) (tasks d))),
                   d\<lparr>tasks := snd (acquire_task_sql worker_id (now k) (tasks d))\<rparr>)"
    unfolding acquire_task_def by (simp add: for_attempts_clean [OF assms])
  have none: "(fst (acquire_task n fails now worker_id d) = Returned None)
                = (\<forall>t \<in> set (tasks d). t_status t \<noteq> Pending)"
    using acquire_task_sql_none [of worker_id "now k" "tasks d"]
    by (simp add: run row_result_def)
  have some: "\<exists>t row.
               t \<in> set (tasks d) \<and> t_status t = Pending \<and>
               (\<forall>u \<in> set (tasks d). t_status u = Pending \<longrightarrow>
                  t_created_at t \<le> t_created_at u) \<and>
               row \<in> set (tasks d) \<and> t_id row = t_id t \<and>
               fst (acquire_task n fails now worker_id d)
                 = Returned (Some \<lparr>leased_task_id = t_id t, leased_item_id = t_item_id row,
                                   leased_attempts = t_attempts row + 1\<rparr>) \<and>
               snd (acquire_task n fails now worker_id d)
                 = d\<lparr>tasks :=
                       map (\<lambda>u. if t_id u = t_id t
                                 then u\<lparr>t_status := Processing,
                                        t_worker_id := Some worker_id,
                                        t_last_attempt_at := Some (now k),
                                        t_attempts := t_attempts u + 1\<rparr>
                                 else u) (tasks d)\<rparr>"
    if "\<exists>t \<in> set (tasks d). t_status t = Pending"
  proof -
    have "select_pending_task (tasks d) \<noteq> None"
      using that select_pending_task_none [of "tasks d"] by blast
    then obtain sel where sel: "select_pending_task (tasks d) = Some sel" by auto
    note props = select_pending_task_some [OF sel]
    obtain row where row: "row \<in> set (tasks d)" "t_id row = t_id sel"
      and sql: "acquire_task_sql worker_id (now k) (tasks d)
             = (Some \<lparr>leased_task_id = t_id sel, leased_item_id = t_item_id row,
                      leased_attempts = t_attempts row + 1\<rparr>,
                map (\<lambda>u. if t_id u = t_id sel then lease_task worker_id (now k) u else u)
                  (tasks d))"
      using acquire_task_sql_some [OF sel, of worker_id "now k"] by blast
    have "fst (acquire_task n fails now worker_id d)
            = Returned (Some \<lparr>leased_task_id = t_id sel, leased_item_id = t_item_id row,
                              leased_attempts = t_attempts row + 1\<rparr>)"
      by (simp add: run row_result_def sql)
    moreover have "snd (acquire_task n fails now worker_id d)
            = d\<lparr>tasks :=
                  map (\<lambda>u. if t_id u = t_id sel
                            then u\<lparr>t_status := Processing,
                                   t_worker_id := Some worker_id,
                                   t_last_attempt_at := Some (now k),
                                   t_attempts := t_attempts u + 1\<rparr>
                            else u) (tasks d)\<rparr>"
      by (simp add: run row_result_def sql lease_task_def)
    ultimately show ?thesis using props row by blast
  qed
  show ?thesis using none some by blast
qed

text \<open>
  C7, as the claim states it: of two pending tasks with the same \<open>created_at\<close> the one with
  the smaller id is leased first. It fails when the scan meets task 2 before task 1: both
  are pending and were created at time 10, and task 2 is leased.
\<close>

theorem acquire_task_tie_by_scan_order:
  "fst (acquire_task 5 no_failure (steady_clock 77) ''w:0''
         (example_db [example_task 2 Pending None 10, example_task 1 Pending None 10] []))
     = Returned (Some \<lparr>leased_task_id = 2, leased_item_id = 102, leased_attempts = 2\<rparr>)"
  by (simp add: acquire_task_def acquire_task_sql_def select_pending_task_def lease_task_def
      for_attempts_no_failure row_result_def example_db_def example_task_def)

theorem acquire_task_oldest_pending_witness:
  "int 0 < 5 \<and> no_failure 0 = Completes \<and>
   t_status (example_task 2 Pending None 10) = Pending \<and>
   fst (acquire_task 5 no_failure (steady_clock 77) ''w:0''
         (example_db [example_task 1 Pending None 20, example_task 2 Pending None 10] []))
     \<noteq> Returned None \<and>
   fst (acquire_task 5 no_failure (steady_clock 77) ''w:0''
         (example_db [example_task 1 Pending None 20, example_task 2 Pending None 10] []))
     = Returned (Some \<lparr>leased_task_id = 2, leased_item_id = 102, leased_attempts = 2\<rparr>) \<and>
   map t_status (tasks (snd (acquire_task 5 no_failure (steady_clock 77) ''w:0''
         (example_db [example_task 1 Pending None 20, example_task 2 Pending None 10] []))))
     = [Pending, Processing]"
proof -
  have k: "int 0 < 5" "no_failure 0 = Completes"
    and before: "\<forall>j<0. no_failure j = RaisesBefore"
    by (simp_all add: no_failure_def)
  have eval: "acquire_task 5 no_failure (steady_clock 77) ''w:0''
         (example_db [example_task 1 Pending None 20, example_task 2 Pending None 10] [])
     = (Returned (Some \<lparr>leased_task_id = 2, leased_item_id = 102, leased_attempts = 2\<rparr>),
        example_db [example_task 1 Pending None 20,
                    (example_task 2 Processing (Some ''w:0'') 10)
                      \<lparr>t_attempts := 2, t_last_attempt_at := Some 77\<rparr>] [])"
    by (simp add: acquire_task_def acquire_task_sql_def select_pending_task_def lease_task_def
        for_attempts_no_failure row_result_def steady_clock_def example_db_def
        example_task_def)
  show ?thesis
    using k
      acquire_task_oldest_pending [OF k before, of "steady_clock 77" "''w:0''"
        "example_db [example_task 1 Pending None 20, example_task 2 Pending None 10] []"]
    unfolding eval by (simp add: example_db_def example_task_def)
qed

section \<open>\<open>increment_task_attempts\<close>\<close>

lemma increment_task_attempts_sql_twice:
  "increment_task_attempts_sql task_id (increment_task_attempts_sql task_id ts)
     = increment_task_attempts_sql task_id ts"
  by (induction ts) (simp_all add: increment_task_attempts_sql_def)

lemma increment_task_attempts_run:
  assumes "int k < n" and "fails k = Completes" and "\<forall>j<k. fails j \<noteq> Completes"
  shows "increment_task_attempts n fails task_id d
           = (Returned (Some True),
              d\<lparr>tasks := increment_task_attempts_sql task_id (tasks d)\<rparr>)"
  unfolding increment_task_attempts_def
  by (subst for_attempts_overwriting [OF assms])
     (simp_all add: increment_task_attempts_sql_twice bool_result_def)

text \<open>
  C8. When an attempt completes, whatever became of the attempts before it,
  \<open>increment_task_attempts\<close> (the release of a task) has the effect of its one update and
  returns \<open>True\<close>: every row with this id has \<open>worker_id\<close> and
  \<open>last_attempt_at\<close> cleared and gets status failed when its attempts, already counted at
  the lease, have reached \<open>max_attempts\<close>, and pending otherwise; its other columns and the
  other rows are unchanged.
\<close>

theorem increment_task_attempts_releases:
  assumes "int k < n" and "fails k = Completes" and "\<forall>j<k. fails j \<noteq> Completes"
    and "i < length (tasks d)"
  shows "let t = tasks d ! i;
             t' = tasks (snd (increment_task_attempts n fails task_id d)) ! i
         in fst (increment_task_attempts n fails task_id d) = Returned (Some True) \<and>
            snd (increment_task_attempts n fails task_id d)
              = d\<lparr>tasks := increment_task_attempts_sql task_id (tasks d)\<rparr> \<and>
            length (tasks (snd (increment_task_attempts n fails task_id d))) = length (tasks d) \<and>
            (if t_id t = task_id
             then t_worker_id t' = None \<and> t_last_attempt_at t' = None \<and>
                  t_status t' = (if t_attempts t \<ge> t_max_attempts t then Failed else Pending) \<and>
                  t_attempts t' = t_attempts t \<and> t_max_attempts t' = t_max_attempts t \<and>
                  t_id t' = t_id t \<and> t_item_id t' = t_item_id t \<and>
                  t_created_at t' = t_created_at t \<and> t_completed_at t' = t_completed_at t
             else t' = t)"
  using assms(4)
  by (simp add: increment_task_attempts_run [OF assms(1,2,3)] increment_task_attempts_sql_def
      Let_def)

theorem increment_task_attempts_releases_witness:
  "int 1 < 5 \<and> answer_lost_once 1 = Completes \<and> answer_lost_once 0 \<noteq> Completes \<and>
   0 < length (tasks leased_db) \<and>
   t_status (tasks (snd (increment_task_attempts 5 answer_lost_once 1 leased_db)) ! 0)
     = Pending \<and>
   t_worker_id (tasks (snd (increment_task_attempts 5 answer_lost_once 1 leased_db)) ! 0)
     = None \<and>
   t_last_attempt_at (tasks (snd (increment_task_attempts 5 answer_lost_once 1 leased_db)) ! 0)
     = None"
proof -
  have k: "int 1 < 5" "answer_lost_once 1 = Completes"
    and before: "\<forall>j<1. answer_lost_once j \<noteq> Completes"
    by (simp_all add: answer_lost_once_def)
  have len: "0 < length (tasks leased_db)"
    by (simp add: leased_db_def example_db_def)
  show ?thesis
    using k before len
      increment_task_attempts_releases [OF k before len, of 1]
    by (simp add: increment_task_attempts_sql_def leased_db_def example_db_def
        example_task_def Let_def)
qed

section \<open>Start of the janitor\<close>

lemma sweep_loop_cycles: "cycles \<le> cycles_run (fst (sweep_loop cfg ticks cycles d))"
proof (induction ticks arbitrary: cycles d)
  case Nil
  show ?case by (simp add: cycles_run_def)
next
  case (Cons tk rest)
  have "Suc cycles \<le> cycles_run (fst (sweep_loop cfg rest (Suc cycles) (cleanup_cycle cfg tk d)))"
    by (rule Cons.IH)
  then show ?case by (simp add: Let_def cycles_run_def)
qed

lemma sweep_loop_not_failed: "fst (sweep_loop cfg ticks cycles d) \<noteq> PoolInitFailed"
  by (induction ticks arbitrary: cycles d) (simp_all add: Let_def)

text \<open>
  C9, as the claim states it: the janitor checks at startup that
  \<open>WORKER_TIMEOUT \<le> PROXY_TIMEOUT \<le> TASK_TIMEOUT\<close> and never enters the sweep loop
  otherwise. It fails on the timeouts 600, 300 and 100: the loop is entered and a cleanup
  cycle runs.
\<close>

theorem misordered_timeouts_sweep:
  "\<not> (WORKER_TIMEOUT misordered_config \<le> PROXY_TIMEOUT misordered_config \<and>
       PROXY_TIMEOUT misordered_config \<le> TASK_TIMEOUT misordered_config) \<and>
   fst (cleanup_main misordered_config False False [quiet_tick 1000 True] leased_db) = Exited 1"
  by (simp add: cleanup_main_def misordered_config_def quiet_tick_def Let_def)

text \<open>
  C9, amended: \<open>main\<close> of the janitor compares no timeouts. Whatever the configuration,
  once \<open>init_pool\<close> has returned and the shutdown flag is not set, the sweep loop is entered
  and a cleanup cycle runs; the only startup failure is a raising \<open>init_pool\<close>.
\<close>

theorem cleanup_main_sweeps_any_config:
  "1 \<le> cycles_run (fst (cleanup_main cfg False False (tk # rest) d)) \<and>
   (fst (cleanup_main cfg init_pool_raises shutdown_set ticks d) = PoolInitFailed)
     = init_pool_raises"
proof -
  have "1 \<le> cycles_run (fst (sweep_loop cfg (tk # rest) 0 d))"
    using sweep_loop_cycles [of "Suc 0" cfg rest "cleanup_cycle cfg tk d"]
    by (simp add: Let_def cycles_run_def)
  then show ?thesis
    using sweep_loop_not_failed [of cfg ticks 0 d] by (simp add: cleanup_main_def)
qed

section \<open>Proxy strings of the loader and of the worker\<close>

text \<open>
  C10. A string that \<open>validate_proxy_format\<close> accepts splits at its colons into exactly
  four parts, with a host that is not blank and a port that reads as an integer from 1 to
  65535, and \<open>parse_proxy\<close> returns the server \<open>http://host:port\<close> with the user name and
  the password of the same parts. \<open>parse_proxy\<close> raises \<open>ValueError\<close> exactly when the
  string does not split into four parts.
\<close>

theorem parse_proxy_of_validated:
  "(validate_proxy_format s \<longrightarrow>
      (\<exists>host port user pass port_num.
         py_split CHR '':'' s = [host, port, user, pass] \<and>
         py_strip host \<noteq> [] \<and> py_int port = Some port_num \<and>
         1 \<le> port_num \<and> port_num \<le> 65535 \<and>
         parse_proxy s
           = Inr \<lparr>server = ''http://'' @ host @ '':'' @ port, username = user,
                  password = pass\<rparr>)) \<and>
   ((parse_proxy s = Inl ValueError) = (length (py_split CHR '':'' s) \<noteq> 4))"
proof (intro conjI impI)
  assume v: "validate_proxy_format s"
  then obtain host port user pass where sp: "py_split CHR '':'' s = [host, port, user, pass]"
    by (auto simp: validate_proxy_format_def split: list.splits)
  have host: "py_strip host \<noteq> []"
    using v sp by (auto simp: validate_proxy_format_def split: if_splits)
  obtain port_num where pn: "py_int port = Some port_num"
    and range: "1 \<le> port_num \<and> port_num \<le> 65535"
    using v sp host by (auto simp: validate_proxy_format_def split: option.splits)
  have "parse_proxy s
          = Inr \<lparr>server = ''http://'' @ host @ '':'' @ port, username = user, password = pass\<rparr>"
    using sp by (simp add: parse_proxy_def)
  then show "\<exists>host port user pass port_num.
         py_split CHR '':'' s = [host, port, user, pass] \<and>
         py_strip host \<noteq> [] \<and> py_int port = Some port_num \<and>
         1 \<le> port_num \<and> port_num \<le> 65535 \<and>
         parse_proxy s
           = Inr \<lparr>server = ''http://'' @ host @ '':'' @ port, username = user,
                  password = pass\<rparr>"
    using sp host pn range by blast
next
  show "(parse_proxy s = Inl ValueError) = (length (py_split CHR '':'' s) \<noteq> 4)"
    by (auto simp: parse_proxy_def split: list.splits)
qed

theorem parse_proxy_of_validated_witness:
  "validate_proxy_format ''1.2.3.4:80:u:x'' \<and>
   parse_proxy ''1.2.3.4:80:u:x''
     = Inr \<lparr>server = ''http://1.2.3.4:80'', username = ''u'', password = ''x''\<rparr>"
proof -
  have sp: "py_split CHR '':'' ''1.2.3.4:80:u:x'' = [''1.2.3.4'', ''80'', ''u'', ''x'']"
    by simp
  have v: "validate_proxy_format ''1.2.3.4:80:u:x''"
    unfolding validate_proxy_format_def sp
    by (simp add: py_strip_def py_isspace_def py_int_def int_isspace_def is_digit_def
        digit_value_def)
  show ?thesis
    using v sp parse_proxy_of_validated [of "''1.2.3.4:80:u:x''"] by auto
qed

end
